theory Spec2Isabelle
  imports Complex_Main
begin

section \<open>The scroll-reveal effects of the landing page\<close>

text \<open>
  The landing page has two components, \<open>Page4\<close> and \<open>Page5\<close>, that reveal their child
  elements when they scroll into view. Each one keeps an array of element references
  (\<open>pointsRef.current\<close>, \<open>boxRefs.current\<close>), creates an \<open>IntersectionObserver\<close> in a
  \<open>useEffect\<close>, observes every non-empty reference and returns a cleanup function that
  unobserves them. The observer's callback adds the class \<open>show\<close> to the target of every
  entry whose \<open>isIntersecting\<close> flag is set.

  The source is modelled with explicit state passing. DOM elements are opaque handles;
  \<open>null\<close>, \<open>undefined\<close> and array holes are \<open>None\<close>: \<open>forEach\<close> skips a hole and
  the test \<open>if (point)\<close> skips the other two.

  In the words of the specification, \<open>register\<close> is the ref callback, \<open>start\<close> the effect,
  \<open>onIntersect\<close> the observer's callback and \<open>stop\<close> the cleanup the effect returns.
\<close>

subsection \<open>Data\<close>

type_synonym elem = nat

text \<open>
  An \<open>IntersectionObserverEntry\<close>, with the fields the page and its specification name.
  The page reads \<open>target\<close> and \<open>isIntersecting\<close> only; the ratio and the observer's threshold
  are decimal literals that it hands on and never computes with, so they are rationals here.
\<close>

record entry =
  target :: elem
  isIntersecting :: bool
  intersectionRatio :: rat

text \<open>An \<open>IntersectionObserver\<close>: the option it was built with and its observation targets.\<close>

record intersection_observer =
  threshold :: rat
  targets :: "elem list"

datatype error = ReferenceError

text \<open>
  The state of one mounted component: the array behind its ref, the observer its effect
  created (\<open>None\<close> as long as the effect has not run), and the class list of every element.
\<close>

record view =
  refs :: "elem option list"
  observer :: "intersection_observer option"
  classList :: "elem \<Rightarrow> string list"

definition revealed :: "view \<Rightarrow> elem \<Rightarrow> bool" where
  "revealed v e = (''show'' \<in> set (classList v e))"

text \<open>The elements with a non-empty handle in the array.\<close>

definition registered :: "elem option list \<Rightarrow> elem set" where
  "registered rs = {e. Some e \<in> set rs}"

subsection \<open>The platform\<close>

text \<open>
  \<open>DOMTokenList.add\<close> appends a token that is not in the list yet and leaves the list alone
  otherwise.
\<close>

definition classList_add :: "string \<Rightarrow> string list \<Rightarrow> string list" where
  "classList_add tok cl = (if tok \<in> set cl then cl else cl @ [tok])"

text \<open>
  \<open>new IntersectionObserver(callback, {threshold})\<close>. The page names the global without
  testing for it, so in an environment that does not define it the expression throws a
  \<open>ReferenceError\<close>. The flag says whether the environment defines the constructor.
\<close>

definition new_IntersectionObserver :: "bool \<Rightarrow> rat \<Rightarrow> error + intersection_observer" where
  "new_IntersectionObserver available th =
     (if available then Inr \<lparr>threshold = th, targets = []\<rparr> else Inl ReferenceError)"

text \<open>\<open>observe\<close> adds a target once; \<open>unobserve\<close> removes it, and does nothing for a stranger.\<close>

definition observe :: "elem \<Rightarrow> intersection_observer \<Rightarrow> intersection_observer" where
  "observe e ob = (if e \<in> set (targets ob) then ob else ob\<lparr>targets := targets ob @ [e]\<rparr>)"

definition unobserve :: "elem \<Rightarrow> intersection_observer \<Rightarrow> intersection_observer" where
  "unobserve e ob = ob\<lparr>targets := removeAll e (targets ob)\<rparr>"

text \<open>
  \<open>array[i] = v\<close> on a JavaScript array: inside the array the slot is overwritten, beyond
  its end the array grows and the slots in between are holes.
\<close>

definition array_set :: "'a option list \<Rightarrow> nat \<Rightarrow> 'a option \<Rightarrow> 'a option list" where
  "array_set xs i v =
     (if i < length xs then xs[i := v] else xs @ replicate (i - length xs) None @ [v])"

subsection \<open>Page4\<close>

text \<open>
  The body of the observer's callback for one entry:
  \<^verbatim>\<open>if (entry.isIntersecting) { entry.target.classList.add('show'); }\<close>
\<close>

definition Page4_onEntry :: "entry \<Rightarrow> (elem \<Rightarrow> string list) \<Rightarrow> (elem \<Rightarrow> string list)" where
  "Page4_onEntry en cl =
     (if isIntersecting en then cl(target en := classList_add ''show'' (cl (target en))) else cl)"

text \<open>The callback: \<open>entries.forEach\<close> of the body above, in the order of the entries.\<close>

definition Page4_callback :: "entry list \<Rightarrow> view \<Rightarrow> view" where
  "Page4_callback entries v = v\<lparr>classList := fold Page4_onEntry entries (classList v)\<rparr>"

text \<open>The ref callback of the \<open>i\<close>-th point: \<open>el => pointsRef.current[i] = el\<close>.\<close>

definition Page4_ref :: "nat \<Rightarrow> elem option \<Rightarrow> view \<Rightarrow> view" where
  "Page4_ref i el v = v\<lparr>refs := array_set (refs v) i el\<rparr>"

text \<open>\<open>pointsRef.current.forEach(point => { if (point) observer.observe(point); })\<close>\<close>

definition Page4_observe_all :: "elem option list \<Rightarrow> intersection_observer \<Rightarrow> intersection_observer" where
  "Page4_observe_all rs ob =
     fold (\<lambda>point ob. case point of None \<Rightarrow> ob | Some p \<Rightarrow> observe p ob) rs ob"

text \<open>\<open>pointsRef.current.forEach(point => { if (point) observer.unobserve(point); })\<close>\<close>

definition Page4_unobserve_all :: "elem option list \<Rightarrow> intersection_observer \<Rightarrow> intersection_observer" where
  "Page4_unobserve_all rs ob =
     fold (\<lambda>point ob. case point of None \<Rightarrow> ob | Some p \<Rightarrow> unobserve p ob) rs ob"

text \<open>
  The effect: it builds the observer with threshold 0.3 and observes every non-empty slot.
  A throw of the constructor leaves the effect before anything was observed.
\<close>

definition Page4_effect :: "bool \<Rightarrow> view \<Rightarrow> error + view" where
  "Page4_effect available v =
     (case new_IntersectionObserver available (3 / 10) of
        Inl err \<Rightarrow> Inl err
      | Inr ob \<Rightarrow> Inr (v\<lparr>observer := Some (Page4_observe_all (refs v) ob)\<rparr>))"

text \<open>
  The cleanup is the function the effect returns, closed over the effect's observer; it
  reads the array as it is when it runs. A component whose effect has not run has no
  cleanup to call.
\<close>

definition Page4_cleanup :: "view \<Rightarrow> view" where
  "Page4_cleanup v =
     (case observer v of
        None \<Rightarrow> v
      | Some ob \<Rightarrow> v\<lparr>observer := Some (Page4_unobserve_all (refs v) ob)\<rparr>)"

text \<open>
  A freshly rendered \<open>Page4\<close>: \<open>useRef([])\<close>, no observer yet, and every point rendered with
  \<open>className="point"\<close>.
\<close>

definition Page4_initial :: view where
  "Page4_initial = \<lparr>refs = [], observer = None, classList = (\<lambda>_. [''point''])\<rparr>"

text \<open>A series of ref callbacks, each with its slot and the handle React passes.\<close>

definition Page4_register_all :: "(nat \<times> elem option) list \<Rightarrow> view \<Rightarrow> view" where
  "Page4_register_all regs v = fold (\<lambda>(i, el). Page4_ref i el) regs v"

text \<open>What can happen to a view once its effect has run.\<close>

datatype op = Register nat "elem option" | Intersect "entry list" | Stop

fun Page4_step :: "op \<Rightarrow> view \<Rightarrow> view" where
  "Page4_step (Register i el) v = Page4_ref i el v"
| "Page4_step (Intersect entries) v = Page4_callback entries v"
| "Page4_step Stop v = Page4_cleanup v"

definition Page4_run :: "op list \<Rightarrow> view \<Rightarrow> view" where
  "Page4_run ops v = fold Page4_step ops v"

text \<open>The entries a run delivers, in order.\<close>

fun delivered :: "op list \<Rightarrow> entry list" where
  "delivered [] = []"
| "delivered (Intersect entries # ops) = entries @ delivered ops"
| "delivered (_ # ops) = delivered ops"

subsection \<open>Page5\<close>

text \<open>
  \<open>Page5\<close> has its own copy of the effect, over \<open>boxRefs.current\<close>, with threshold 0.2.
  Its boxes are rendered with the class \<open>flip-in\<close>.
\<close>

definition Page5_onEntry :: "entry \<Rightarrow> (elem \<Rightarrow> string list) \<Rightarrow> (elem \<Rightarrow> string list)" where
  "Page5_onEntry en cl =
     (if isIntersecting en then cl(target en := classList_add ''show'' (cl (target en))) else cl)"

definition Page5_callback :: "entry list \<Rightarrow> view \<Rightarrow> view" where
  "Page5_callback entries v = v\<lparr>classList := fold Page5_onEntry entries (classList v)\<rparr>"

text \<open>The ref callback of the \<open>i\<close>-th box: \<open>(el) => (boxRefs.current[i] = el)\<close>.\<close>

definition Page5_ref :: "nat \<Rightarrow> elem option \<Rightarrow> view \<Rightarrow> view" where
  "Page5_ref i el v = v\<lparr>refs := array_set (refs v) i el\<rparr>"

definition Page5_observe_all :: "elem option list \<Rightarrow> intersection_observer \<Rightarrow> intersection_observer" where
  "Page5_observe_all rs ob =
     fold (\<lambda>box ob. case box of None \<Rightarrow> ob | Some b \<Rightarrow> observe b ob) rs ob"

definition Page5_unobserve_all :: "elem option list \<Rightarrow> intersection_observer \<Rightarrow> intersection_observer" where
  "Page5_unobserve_all rs ob =
     fold (\<lambda>box ob. case box of None \<Rightarrow> ob | Some b \<Rightarrow> unobserve b ob) rs ob"

definition Page5_effect :: "bool \<Rightarrow> view \<Rightarrow> error + view" where
  "Page5_effect available v =
     (case new_IntersectionObserver available (2 / 10) of
        Inl err \<Rightarrow> Inl err
      | Inr ob \<Rightarrow> Inr (v\<lparr>observer := Some (Page5_observe_all (refs v) ob)\<rparr>))"

definition Page5_cleanup :: "view \<Rightarrow> view" where
  "Page5_cleanup v =
     (case observer v of
        None \<Rightarrow> v
      | Some ob \<Rightarrow> v\<lparr>observer := Some (Page5_unobserve_all (refs v) ob)\<rparr>)"

definition Page5_initial :: view where
  "Page5_initial = \<lparr>refs = [], observer = None, classList = (\<lambda>_. [''flip-in''])\<rparr>"

definition Page5_register_all :: "(nat \<times> elem option) list \<Rightarrow> view \<Rightarrow> view" where
  "Page5_register_all regs v = fold (\<lambda>(i, el). Page5_ref i el) regs v"

fun Page5_step :: "op \<Rightarrow> view \<Rightarrow> view" where
  "Page5_step (Register i el) v = Page5_ref i el v"
| "Page5_step (Intersect entries) v = Page5_callback entries v"
| "Page5_step Stop v = Page5_cleanup v"

definition Page5_run :: "op list \<Rightarrow> view \<Rightarrow> view" where
  "Page5_run ops v = fold Page5_step ops v"

text \<open>
  Two views agree in what the controller's contract can see: the registry, the observed
  elements and the revealed state of every element.
\<close>

definition same_outcome :: "view \<Rightarrow> view \<Rightarrow> bool" where
  "same_outcome v w \<longleftrightarrow>
     refs v = refs w \<and>
     map_option targets (observer v) = map_option targets (observer w) \<and>
     (\<forall>e. revealed v e = revealed w e)"

section \<open>Properties\<close>

subsection \<open>The class lists only grow\<close>

lemma Page4_onEntry_show:
  "''show'' \<in> set (Page4_onEntry en cl e) \<longleftrightarrow>
     ''show'' \<in> set (cl e) \<or> (isIntersecting en \<and> target en = e)"
  by (auto simp: Page4_onEntry_def classList_add_def)

lemma fold_Page4_onEntry_show:
  "''show'' \<in> set (fold Page4_onEntry entries cl e) \<longleftrightarrow>
     ''show'' \<in> set (cl e) \<or> (\<exists>en \<in> set entries. isIntersecting en \<and> target en = e)"
  by (induction entries arbitrary: cl) (auto simp: Page4_onEntry_show)

lemma revealed_Page4_callback:
  "revealed (Page4_callback entries v) e \<longleftrightarrow>
     revealed v e \<or> (\<exists>en \<in> set entries. isIntersecting en \<and> target en = e)"
  by (simp add: revealed_def Page4_callback_def fold_Page4_onEntry_show)

lemma revealed_Page4_ref: "revealed (Page4_ref i el v) e = revealed v e"
  by (simp add: revealed_def Page4_ref_def)

lemma revealed_Page4_cleanup: "revealed (Page4_cleanup v) e = revealed v e"
  by (simp add: revealed_def Page4_cleanup_def split: option.split)

lemma revealed_Page4_run:
  "revealed (Page4_run ops v) e \<longleftrightarrow>
     revealed v e \<or> (\<exists>en \<in> set (delivered ops). isIntersecting en \<and> target en = e)"
  unfolding Page4_run_def
proof (induction ops arbitrary: v)
  case Nil
  show ?case by simp
next
  case (Cons x ops)
  show ?case
    by (cases x)
       (auto simp: Cons.IH revealed_Page4_callback revealed_Page4_ref revealed_Page4_cleanup)
qed


subsection \<open>The registry and the observation targets\<close>

lemma registered_Nil: "registered [] = {}"
  by (simp add: registered_def)

lemma registered_Cons_None: "registered (None # rs) = registered rs"
  by (auto simp: registered_def)

lemma registered_Cons_Some: "registered (Some p # rs) = insert p (registered rs)"
  by (auto simp: registered_def)

lemmas registered_simps = registered_Nil registered_Cons_None registered_Cons_Some

lemma Page4_observe_all_threshold: "threshold (Page4_observe_all rs ob) = threshold ob"
  unfolding Page4_observe_all_def
  by (induction rs arbitrary: ob) (auto simp: observe_def split: option.split)


lemma Page4_unobserve_all_eq:
  "Page4_unobserve_all rs ob = ob\<lparr>targets := filter (\<lambda>e. e \<notin> registered rs) (targets ob)\<rparr>"
  unfolding Page4_unobserve_all_def
proof (induction rs arbitrary: ob)
  case Nil
  show ?case by (simp add: registered_simps)
next
  case (Cons a rs)
  show ?case
  proof (cases a)
    case None
    then show ?thesis by (simp add: Cons.IH registered_simps)
  next
    case (Some p)
    have "filter (\<lambda>e. e \<notin> registered rs) (removeAll p xs)
            = filter (\<lambda>e. e \<notin> insert p (registered rs)) xs" for xs
      by (induction xs) auto
    with Some show ?thesis by (simp add: Cons.IH registered_simps unobserve_def)
  qed
qed

lemma Page4_register_all_classList: "classList (Page4_register_all regs v) = classList v"
  unfolding Page4_register_all_def
  by (induction regs arbitrary: v) (auto simp: Page4_ref_def)

lemma Page4_register_all_observer: "observer (Page4_register_all regs v) = observer v"
  unfolding Page4_register_all_def
  by (induction regs arbitrary: v) (auto simp: Page4_ref_def)

lemma Page4_effect_Inr:
  "Page4_effect available v = Inr v' \<longleftrightarrow>
     available \<and> v' = v\<lparr>observer := Some (Page4_observe_all (refs v) \<lparr>threshold = 3 / 10, targets = []\<rparr>)\<rparr>"
  by (auto simp: Page4_effect_def new_IntersectionObserver_def)

subsection \<open>Page5 is Page4 with another threshold\<close>

lemma Page5_onEntry_eq: "Page5_onEntry = Page4_onEntry"
  by (intro ext) (simp add: Page5_onEntry_def Page4_onEntry_def)

lemma Page5_callback_eq: "Page5_callback = Page4_callback"
  by (intro ext) (simp add: Page5_callback_def Page4_callback_def Page5_onEntry_eq)

lemma Page5_ref_eq: "Page5_ref = Page4_ref"
  by (intro ext) (simp add: Page5_ref_def Page4_ref_def)

lemma Page5_observe_all_eq: "Page5_observe_all = Page4_observe_all"
  by (intro ext) (simp add: Page5_observe_all_def Page4_observe_all_def)

lemma Page5_unobserve_all_eq: "Page5_unobserve_all = Page4_unobserve_all"
  by (intro ext) (simp add: Page5_unobserve_all_def Page4_unobserve_all_def)

lemma Page5_cleanup_eq: "Page5_cleanup = Page4_cleanup"
  by (intro ext) (simp add: Page5_cleanup_def Page4_cleanup_def Page5_unobserve_all_eq split: option.split)

lemma Page5_step_eq: "Page5_step = Page4_step"
proof (intro ext)
  fix x v show "Page5_step x v = Page4_step x v"
    by (cases x) (simp_all add: Page5_ref_eq Page5_callback_eq Page5_cleanup_eq)
qed

lemma Page5_run_eq: "Page5_run = Page4_run"
  by (intro ext) (simp add: Page5_run_def Page4_run_def Page5_step_eq)

lemma Page5_register_all_eq: "Page5_register_all = Page4_register_all"
  by (intro ext) (simp add: Page5_register_all_def Page4_register_all_def Page5_ref_eq)

lemma Page5_effect_Inr:
  "Page5_effect available v = Inr v' \<longleftrightarrow>
     available \<and> v' = v\<lparr>observer := Some (Page4_observe_all (refs v) \<lparr>threshold = 2 / 10, targets = []\<rparr>)\<rparr>"
  by (auto simp: Page5_effect_def new_IntersectionObserver_def Page5_observe_all_eq)

lemma same_outcome_Page4_step:
  assumes "same_outcome v w"
  shows "same_outcome (Page4_step x v) (Page4_step x w)"
proof (cases x)
  case (Register i el)
  with assms show ?thesis by (simp add: same_outcome_def Page4_ref_def revealed_def)
next
  case (Intersect entries)
  with assms show ?thesis
    by (simp add: same_outcome_def revealed_Page4_callback) (simp add: Page4_callback_def)
next
  case Stop
  from assms have r: "refs v = refs w"
    and t: "map_option targets (observer v) = map_option targets (observer w)"
    and c: "\<forall>e. revealed v e = revealed w e"
    by (simp_all add: same_outcome_def)
  show ?thesis
  proof (cases "observer v")
    case None
    with t have "observer w = None" by simp
    with None Stop assms show ?thesis by (simp add: Page4_cleanup_def)
  next
    case (Some a)
    with t obtain b where b: "observer w = Some b" "targets a = targets b"
      by (cases "observer w") auto
    with Some Stop r c show ?thesis
      by (simp add: same_outcome_def revealed_def Page4_cleanup_def Page4_unobserve_all_eq)
  qed
qed

lemma same_outcome_Page4_run:
  "same_outcome v w \<Longrightarrow> same_outcome (Page4_run ops v) (Page4_run ops w)"
  unfolding Page4_run_def
  by (induction ops arbitrary: v w) (simp_all add: same_outcome_Page4_step)


subsection \<open>Runs, slots and the cleanup\<close>

lemma delivered_append: "delivered (ops @ later) = delivered ops @ delivered later"
  by (induction ops rule: delivered.induct) simp_all



lemma Page4_register_all_refs:
  "refs (Page4_register_all regs v) = fold (\<lambda>(i, el) rs. array_set rs i el) regs (refs v)"
  unfolding Page4_register_all_def
  by (induction regs arbitrary: v) (auto simp: Page4_ref_def)

lemma Page4_observe_all_targets_fold:
  "targets (Page4_observe_all rs ob) =
     fold (\<lambda>point ts. case point of None \<Rightarrow> ts
                       | Some p \<Rightarrow> if p \<in> set ts then ts else ts @ [p]) rs (targets ob)"
  unfolding Page4_observe_all_def
  by (induction rs arbitrary: ob) (auto simp: observe_def split: option.split)

section \<open>The claims\<close>

text \<open>
  C1. The revealed state of an element is monotonic: once a run of operations has revealed
  it, whatever follows (further visibility events, intersecting or not, registrations,
  \<open>stop\<close>) leaves it revealed.
\<close>

theorem Page4_revealed_monotonic:
  "revealed (Page4_run ops v) e \<Longrightarrow> revealed (Page4_run (ops @ later) v) e"
  by (auto simp: revealed_Page4_run delivered_append)

theorem Page4_revealed_monotonic_witness:
  "revealed (Page4_run [Intersect [\<lparr>target = 2, isIntersecting = True, intersectionRatio = 1 / 2\<rparr>]]
       \<lparr>refs = [Some 0, Some 1, Some 2, Some 3],
        observer = Some \<lparr>threshold = 3 / 10, targets = [0, 1, 2, 3]\<rparr>,
        classList = (\<lambda>_. [''point''])\<rparr>) 2
   \<and> revealed (Page4_run ([Intersect [\<lparr>target = 2, isIntersecting = True, intersectionRatio = 1 / 2\<rparr>]]
         @ [Intersect [\<lparr>target = 2, isIntersecting = False, intersectionRatio = 0\<rparr>], Stop,
            Intersect [\<lparr>target = 1, isIntersecting = True, intersectionRatio = 1\<rparr>]])
       \<lparr>refs = [Some 0, Some 1, Some 2, Some 3],
        observer = Some \<lparr>threshold = 3 / 10, targets = [0, 1, 2, 3]\<rparr>,
        classList = (\<lambda>_. [''point''])\<rparr>) 2"
proof -
  have h: "revealed (Page4_run [Intersect [\<lparr>target = 2, isIntersecting = True, intersectionRatio = 1 / 2\<rparr>]]
       \<lparr>refs = [Some 0, Some 1, Some 2, Some 3],
        observer = Some \<lparr>threshold = 3 / 10, targets = [0, 1, 2, 3]\<rparr>,
        classList = (\<lambda>_. [''point''])\<rparr>) 2"
    by (simp add: revealed_def Page4_run_def Page4_callback_def Page4_onEntry_def classList_add_def)
  from h Page4_revealed_monotonic [OF h] show ?thesis by blast
qed

text \<open>
  C2. The claim: a visibility event delivered after \<open>stop\<close> changes no element's revealed
  state. The callback does not look at the observer or at the registry, so a late
  intersecting event reveals its target: four points are registered, the effect runs, the
  cleanup runs, and then an intersecting entry for element 0 arrives.
\<close>

theorem Page4_late_event_counterexample:
  "Page4_effect True (Page4_register_all [(0, Some 0), (1, Some 1), (2, Some 2), (3, Some 3)] Page4_initial)
     = Inr \<lparr>refs = [Some 0, Some 1, Some 2, Some 3],
            observer = Some \<lparr>threshold = 3 / 10, targets = [0, 1, 2, 3]\<rparr>,
            classList = (\<lambda>_. [''point''])\<rparr>
   \<and> \<not> revealed (Page4_cleanup
         \<lparr>refs = [Some 0, Some 1, Some 2, Some 3],
          observer = Some \<lparr>threshold = 3 / 10, targets = [0, 1, 2, 3]\<rparr>,
          classList = (\<lambda>_. [''point''])\<rparr>) 0
   \<and> revealed (Page4_callback [\<lparr>target = 0, isIntersecting = True, intersectionRatio = 1\<rparr>]
        (Page4_cleanup
         \<lparr>refs = [Some 0, Some 1, Some 2, Some 3],
          observer = Some \<lparr>threshold = 3 / 10, targets = [0, 1, 2, 3]\<rparr>,
          classList = (\<lambda>_. [''point''])\<rparr>)) 0"
  by (simp add: Page4_effect_def new_IntersectionObserver_def Page4_register_all_def Page4_ref_def
      array_set_def Page4_initial_def Page4_observe_all_def observe_def revealed_def
      Page4_cleanup_def Page4_callback_def Page4_onEntry_def classList_add_def)

text \<open>
  C2, as the code has it. An entry delivered after the cleanup is handled like any other:
  its target is revealed afterwards exactly if it was revealed before or the entry is
  intersecting, every other element keeps its state, and the registry and the observer
  are not touched. The callback is a total function: it raises nothing.
\<close>

theorem Page4_late_event_handled:
  "(revealed (Page4_callback [en] (Page4_cleanup v)) e
      \<longleftrightarrow> revealed v e \<or> (isIntersecting en \<and> target en = e))
   \<and> refs (Page4_callback [en] (Page4_cleanup v)) = refs (Page4_cleanup v)
   \<and> observer (Page4_callback [en] (Page4_cleanup v)) = observer (Page4_cleanup v)"
  by (simp add: revealed_Page4_callback revealed_Page4_cleanup) (simp add: Page4_callback_def)

text \<open>
  C3. The claim: without the intersection facility the start is a silent no-op. The effect
  names the constructor without a test and without a handler, so it throws.
\<close>

theorem Page4_effect_unavailable_counterexample:
  "Page4_effect False (Page4_register_all [(0, Some 0), (1, Some 1), (2, Some 2), (3, Some 3)] Page4_initial)
     = Inl ReferenceError"
  by (simp add: Page4_effect_def new_IntersectionObserver_def)

text \<open>
  C3, as the code has it. Without the facility the effect of either page ends in a
  \<open>ReferenceError\<close> at its first statement, whatever the registry holds: no observer and no
  observation is created and no class list is written.
\<close>

theorem effect_unavailable_throws:
  "Page4_effect False v = Inl ReferenceError \<and> Page5_effect False v = Inl ReferenceError"
  by (simp add: Page4_effect_def Page5_effect_def new_IntersectionObserver_def)


text \<open>
  C4. Four distinct elements are registered at slots 0 to 3 and the effect of \<open>Page4\<close>
  (threshold 0.3) runs where the facility exists. It succeeds and nothing is revealed yet.
  One entry for the element of slot 2, with ratio 0.5 and \<open>isIntersecting\<close> set, reveals
  that element and leaves the elements of slots 0, 1 and 3 unrevealed.
\<close>

theorem Page4_reveals_slot_2_only:
  assumes "distinct [e0, e1, e2, e3]"
  shows "case Page4_effect True
           (Page4_register_all [(0, Some e0), (1, Some e1), (2, Some e2), (3, Some e3)] Page4_initial) of
           Inl err \<Rightarrow> False
         | Inr v \<Rightarrow>
             map_option threshold (observer v) = Some (3 / 10) \<and>
             refs v = [Some e0, Some e1, Some e2, Some e3] \<and>
             (\<forall>e. \<not> revealed v e) \<and>
             (let v' = Page4_callback
                         [\<lparr>target = e2, isIntersecting = True, intersectionRatio = 1 / 2\<rparr>] v
              in revealed v' e2 \<and> \<not> revealed v' e0 \<and> \<not> revealed v' e1 \<and> \<not> revealed v' e3)"
  using assms
  by (simp add: Page4_effect_def new_IntersectionObserver_def Page4_register_all_def Page4_ref_def
      array_set_def Page4_initial_def Page4_observe_all_threshold revealed_def
      Page4_callback_def Page4_onEntry_def classList_add_def)

theorem Page4_reveals_slot_2_only_witness:
  "distinct [10, 11, 12, 13 :: nat] \<and>
   (case Page4_effect True
           (Page4_register_all [(0, Some 10), (1, Some 11), (2, Some 12), (3, Some 13)] Page4_initial) of
      Inl err \<Rightarrow> False
    | Inr v \<Rightarrow>
        map_option threshold (observer v) = Some (3 / 10) \<and>
        refs v = [Some 10, Some 11, Some 12, Some 13] \<and>
        (\<forall>e. \<not> revealed v e) \<and>
        (let v' = Page4_callback
                    [\<lparr>target = 12, isIntersecting = True, intersectionRatio = 1 / 2\<rparr>] v
         in revealed v' 12 \<and> \<not> revealed v' 10 \<and> \<not> revealed v' 11 \<and> \<not> revealed v' 13))"
proof -
  have h: "distinct [10, 11, 12, 13 :: nat]" by simp
  from h Page4_reveals_slot_2_only [OF h] show ?thesis by blast
qed

text \<open>
  C5. After any registration and a successful start, an element is revealed only if an
  entry with \<open>isIntersecting\<close> set was delivered for it; an element for which no such entry
  was delivered is unrevealed.
\<close>

theorem Page4_revealed_only_if_intersected:
  assumes "Page4_effect available (Page4_register_all regs Page4_initial) = Inr v"
    and "revealed (Page4_run ops v) e"
  shows "\<exists>en \<in> set (delivered ops). target en = e \<and> isIntersecting en"
proof -
  from assms(1) have "classList v = (\<lambda>_. [''point''])"
    by (auto simp: Page4_effect_Inr Page4_register_all_classList Page4_initial_def)
  then have "\<not> revealed v e" by (simp add: revealed_def)
  with assms(2) show ?thesis by (auto simp: revealed_Page4_run)
qed

theorem Page4_revealed_only_if_intersected_witness:
  "Page4_effect True (Page4_register_all [(0, Some 0), (1, Some 1), (2, Some 2), (3, Some 3)] Page4_initial)
     = Inr \<lparr>refs = [Some 0, Some 1, Some 2, Some 3],
            observer = Some \<lparr>threshold = 3 / 10, targets = [0, 1, 2, 3]\<rparr>,
            classList = (\<lambda>_. [''point''])\<rparr>
   \<and> revealed (Page4_run [Intersect [\<lparr>target = 1, isIntersecting = False, intersectionRatio = 0\<rparr>],
                           Intersect [\<lparr>target = 2, isIntersecting = True, intersectionRatio = 1 / 2\<rparr>]]
         \<lparr>refs = [Some 0, Some 1, Some 2, Some 3],
          observer = Some \<lparr>threshold = 3 / 10, targets = [0, 1, 2, 3]\<rparr>,
          classList = (\<lambda>_. [''point''])\<rparr>) 2
   \<and> (\<exists>en \<in> set (delivered [Intersect [\<lparr>target = 1, isIntersecting = False, intersectionRatio = 0\<rparr>],
                                Intersect [\<lparr>target = 2, isIntersecting = True, intersectionRatio = 1 / 2\<rparr>]]).
         target en = 2 \<and> isIntersecting en)"
proof -
  have h1: "Page4_effect True (Page4_register_all [(0, Some 0), (1, Some 1), (2, Some 2), (3, Some 3)] Page4_initial)
     = Inr \<lparr>refs = [Some 0, Some 1, Some 2, Some 3],
            observer = Some \<lparr>threshold = 3 / 10, targets = [0, 1, 2, 3]\<rparr>,
            classList = (\<lambda>_. [''point''])\<rparr>"
    by (simp add: Page4_effect_def new_IntersectionObserver_def Page4_register_all_def Page4_ref_def
        array_set_def Page4_initial_def Page4_observe_all_def observe_def)
  have h2: "revealed (Page4_run [Intersect [\<lparr>target = 1, isIntersecting = False, intersectionRatio = 0\<rparr>],
                           Intersect [\<lparr>target = 2, isIntersecting = True, intersectionRatio = 1 / 2\<rparr>]]
         \<lparr>refs = [Some 0, Some 1, Some 2, Some 3],
          observer = Some \<lparr>threshold = 3 / 10, targets = [0, 1, 2, 3]\<rparr>,
          classList = (\<lambda>_. [''point''])\<rparr>) 2"
    by (simp add: revealed_def Page4_run_def Page4_callback_def Page4_onEntry_def classList_add_def)
  from h1 h2 Page4_revealed_only_if_intersected [OF h1 h2] show ?thesis by blast
qed

text \<open>
  C6. A batch of entries none of which is intersecting, and so a single entry with
  \<open>isIntersecting\<close> unset, leaves the whole view as it was, in \<open>Page4\<close> and in \<open>Page5\<close>:
  no class list changes, so no element is revealed and none is un-revealed.
\<close>

theorem callback_not_intersecting_no_action:
  assumes "\<forall>en \<in> set entries. \<not> isIntersecting en"
  shows "Page4_callback entries v = v \<and> Page5_callback entries v = v"
proof -
  from assms have "fold Page4_onEntry entries cl = cl" for cl
    by (induction entries arbitrary: cl) (simp_all add: Page4_onEntry_def)
  then show ?thesis by (simp add: Page5_callback_eq Page4_callback_def)
qed

theorem callback_not_intersecting_no_action_witness:
  "list_all (\<lambda>en. \<not> isIntersecting en)
     [\<lparr>target = 1, isIntersecting = False, intersectionRatio = 1 / 10\<rparr>]
   \<and> Page4_callback [\<lparr>target = 1, isIntersecting = False, intersectionRatio = 1 / 10\<rparr>]
        \<lparr>refs = [Some 0, Some 1, Some 2, Some 3],
         observer = Some \<lparr>threshold = 3 / 10, targets = [0, 1, 2, 3]\<rparr>,
         classList = (\<lambda>_. [''point''])(2 := [''point'', ''show''])\<rparr>
      = \<lparr>refs = [Some 0, Some 1, Some 2, Some 3],
         observer = Some \<lparr>threshold = 3 / 10, targets = [0, 1, 2, 3]\<rparr>,
         classList = (\<lambda>_. [''point''])(2 := [''point'', ''show''])\<rparr>
   \<and> Page5_callback [\<lparr>target = 1, isIntersecting = False, intersectionRatio = 1 / 10\<rparr>]
        \<lparr>refs = [Some 0, Some 1, Some 2, Some 3],
         observer = Some \<lparr>threshold = 2 / 10, targets = [0, 1, 2, 3]\<rparr>,
         classList = (\<lambda>_. [''flip-in''])\<rparr>
      = \<lparr>refs = [Some 0, Some 1, Some 2, Some 3],
         observer = Some \<lparr>threshold = 2 / 10, targets = [0, 1, 2, 3]\<rparr>,
         classList = (\<lambda>_. [''flip-in''])\<rparr>"
proof -
  have h: "\<forall>en \<in> set [\<lparr>target = 1, isIntersecting = False, intersectionRatio = 1 / 10\<rparr>]. \<not> isIntersecting en"
    by simp
  from h callback_not_intersecting_no_action [OF h] show ?thesis by simp
qed


text \<open>
  C7. The claim: a \<open>stop\<close> that comes before every visibility event releases all
  observations. The cleanup is written to do that, with a loop that mirrors the one of the
  effect, and it does when it finds the array as the effect saw it. But it reads the array
  when it runs, and at unmount the ref callback of every point has been called with an empty
  handle by then: the cleanup finds four empty slots and unobserves nothing. Four points
  are registered and the effect runs; then either the cleanup runs at once, or the four
  refs are detached first. No entry is delivered and nothing is revealed in either run; the
  first ends with no observed element, the second with all four still observed. \<open>Page5\<close>
  does the same.
\<close>

theorem cleanup_after_detach_releases_nothing:
  "Page4_effect True (Page4_register_all [(0, Some 0), (1, Some 1), (2, Some 2), (3, Some 3)] Page4_initial)
     = Inr \<lparr>refs = [Some 0, Some 1, Some 2, Some 3],
            observer = Some \<lparr>threshold = 3 / 10, targets = [0, 1, 2, 3]\<rparr>,
            classList = (\<lambda>_. [''point''])\<rparr>
   \<and> Page4_run [Stop]
         \<lparr>refs = [Some 0, Some 1, Some 2, Some 3],
          observer = Some \<lparr>threshold = 3 / 10, targets = [0, 1, 2, 3]\<rparr>,
          classList = (\<lambda>_. [''point''])\<rparr>
       = \<lparr>refs = [Some 0, Some 1, Some 2, Some 3],
          observer = Some \<lparr>threshold = 3 / 10, targets = []\<rparr>,
          classList = (\<lambda>_. [''point''])\<rparr>
   \<and> delivered [Register 0 None, Register 1 None, Register 2 None, Register 3 None, Stop] = []
   \<and> Page4_run [Register 0 None, Register 1 None, Register 2 None, Register 3 None, Stop]
         \<lparr>refs = [Some 0, Some 1, Some 2, Some 3],
          observer = Some \<lparr>threshold = 3 / 10, targets = [0, 1, 2, 3]\<rparr>,
          classList = (\<lambda>_. [''point''])\<rparr>
       = \<lparr>refs = [None, None, None, None],
          observer = Some \<lparr>threshold = 3 / 10, targets = [0, 1, 2, 3]\<rparr>,
          classList = (\<lambda>_. [''point''])\<rparr>
   \<and> Page5_effect True (Page5_register_all [(0, Some 0), (1, Some 1), (2, Some 2), (3, Some 3)] Page5_initial)
     = Inr \<lparr>refs = [Some 0, Some 1, Some 2, Some 3],
            observer = Some \<lparr>threshold = 2 / 10, targets = [0, 1, 2, 3]\<rparr>,
            classList = (\<lambda>_. [''flip-in''])\<rparr>
   \<and> Page5_run [Register 0 None, Register 1 None, Register 2 None, Register 3 None, Stop]
         \<lparr>refs = [Some 0, Some 1, Some 2, Some 3],
          observer = Some \<lparr>threshold = 2 / 10, targets = [0, 1, 2, 3]\<rparr>,
          classList = (\<lambda>_. [''flip-in''])\<rparr>
       = \<lparr>refs = [None, None, None, None],
          observer = Some \<lparr>threshold = 2 / 10, targets = [0, 1, 2, 3]\<rparr>,
          classList = (\<lambda>_. [''flip-in''])\<rparr>"
proof -
  have e4: "Page4_effect True (Page4_register_all [(0, Some 0), (1, Some 1), (2, Some 2), (3, Some 3)] Page4_initial)
     = Inr \<lparr>refs = [Some 0, Some 1, Some 2, Some 3],
            observer = Some \<lparr>threshold = 3 / 10, targets = [0, 1, 2, 3]\<rparr>,
            classList = (\<lambda>_. [''point''])\<rparr>"
    by (simp add: Page4_effect_def new_IntersectionObserver_def Page4_register_all_def Page4_ref_def
        array_set_def Page4_initial_def Page4_observe_all_def observe_def)
  have s4: "Page4_run [Stop]
         \<lparr>refs = [Some 0, Some 1, Some 2, Some 3],
          observer = Some \<lparr>threshold = 3 / 10, targets = [0, 1, 2, 3]\<rparr>,
          classList = (\<lambda>_. [''point''])\<rparr>
       = \<lparr>refs = [Some 0, Some 1, Some 2, Some 3],
          observer = Some \<lparr>threshold = 3 / 10, targets = []\<rparr>,
          classList = (\<lambda>_. [''point''])\<rparr>"
    by (simp add: Page4_run_def Page4_cleanup_def Page4_unobserve_all_def unobserve_def)
  have d: "delivered [Register 0 None, Register 1 None, Register 2 None, Register 3 None, Stop] = []"
    by simp
  have u4: "Page4_run [Register 0 None, Register 1 None, Register 2 None, Register 3 None, Stop]
         \<lparr>refs = [Some 0, Some 1, Some 2, Some 3],
          observer = Some \<lparr>threshold = 3 / 10, targets = [0, 1, 2, 3]\<rparr>,
          classList = (\<lambda>_. [''point''])\<rparr>
       = \<lparr>refs = [None, None, None, None],
          observer = Some \<lparr>threshold = 3 / 10, targets = [0, 1, 2, 3]\<rparr>,
          classList = (\<lambda>_. [''point''])\<rparr>"
    by (simp add: Page4_run_def Page4_ref_def array_set_def Page4_cleanup_def
        Page4_unobserve_all_def)
  have e5: "Page5_effect True (Page5_register_all [(0, Some 0), (1, Some 1), (2, Some 2), (3, Some 3)] Page5_initial)
     = Inr \<lparr>refs = [Some 0, Some 1, Some 2, Some 3],
            observer = Some \<lparr>threshold = 2 / 10, targets = [0, 1, 2, 3]\<rparr>,
            classList = (\<lambda>_. [''flip-in''])\<rparr>"
    by (simp add: Page5_effect_def new_IntersectionObserver_def Page5_register_all_def Page5_ref_def
        array_set_def Page5_initial_def Page5_observe_all_def observe_def)
  have u5: "Page5_run [Register 0 None, Register 1 None, Register 2 None, Register 3 None, Stop]
         \<lparr>refs = [Some 0, Some 1, Some 2, Some 3],
          observer = Some \<lparr>threshold = 2 / 10, targets = [0, 1, 2, 3]\<rparr>,
          classList = (\<lambda>_. [''flip-in''])\<rparr>
       = \<lparr>refs = [None, None, None, None],
          observer = Some \<lparr>threshold = 2 / 10, targets = [0, 1, 2, 3]\<rparr>,
          classList = (\<lambda>_. [''flip-in''])\<rparr>"
    by (simp add: Page5_run_def Page5_ref_def array_set_def Page5_cleanup_def
        Page5_unobserve_all_def)
  from e4 s4 d u4 e5 u5 show ?thesis by (intro conjI)
qed




text \<open>
  C9. The two pages use the same ref callback, observer callback and cleanup. After the
  same registration their effects fail alike where the facility is missing, and where it
  exists they yield views with thresholds 0.3 and 0.2 that agree in registry, observed
  elements and revealed state, and go on agreeing after every series of operations.
\<close>

theorem Page5_computes_what_Page4_computes:
  "Page5_ref = Page4_ref \<and> Page5_callback = Page4_callback \<and> Page5_cleanup = Page4_cleanup
   \<and> rel_sum (=)
        (\<lambda>v w. map_option threshold (observer v) = Some (3 / 10) \<and>
               map_option threshold (observer w) = Some (2 / 10) \<and>
               same_outcome v w \<and>
               same_outcome (Page4_run ops v) (Page5_run ops w))
        (Page4_effect available (Page4_register_all regs Page4_initial))
        (Page5_effect available (Page5_register_all regs Page5_initial))"
proof -
  let ?P = "\<lambda>v w. map_option threshold (observer v) = Some (3 / 10) \<and>
               map_option threshold (observer w) = Some (2 / 10) \<and>
               same_outcome v w \<and>
               same_outcome (Page4_run ops v) (Page5_run ops w)"
  have rel: "rel_sum (=) ?P
        (Page4_effect available (Page4_register_all regs Page4_initial))
        (Page5_effect available (Page5_register_all regs Page5_initial))"
  proof (cases available)
    case False
    then show ?thesis
      by (simp add: Page4_effect_def Page5_effect_def new_IntersectionObserver_def)
  next
    case True
    let ?u4 = "Page4_register_all regs Page4_initial"
    let ?u5 = "Page4_register_all regs Page5_initial"
    let ?v = "?u4\<lparr>observer := Some (Page4_observe_all (refs ?u4) \<lparr>threshold = 3 / 10, targets = []\<rparr>)\<rparr>"
    let ?w = "?u5\<lparr>observer := Some (Page4_observe_all (refs ?u5) \<lparr>threshold = 2 / 10, targets = []\<rparr>)\<rparr>"
    have r: "refs ?u4 = refs ?u5"
      by (simp add: Page4_register_all_refs Page4_initial_def Page5_initial_def)
    have so: "same_outcome ?v ?w"
      unfolding same_outcome_def
    proof (intro conjI allI)
      show "refs ?v = refs ?w"
        using r by simp
      show "map_option targets (observer ?v) = map_option targets (observer ?w)"
        using r by (simp add: Page4_observe_all_targets_fold)
      show "revealed ?v e = revealed ?w e" for e
        by (simp add: revealed_def Page4_register_all_classList Page4_initial_def Page5_initial_def)
    qed
    then have "same_outcome (Page4_run ops ?v) (Page4_run ops ?w)"
      by (rule same_outcome_Page4_run)
    with so have "?P ?v ?w"
      by (simp add: Page5_run_eq Page4_observe_all_threshold)
    moreover have "Page4_effect available ?u4 = Inr ?v"
      using True by (simp add: Page4_effect_Inr)
    moreover have "Page5_effect available (Page5_register_all regs Page5_initial) = Inr ?w"
      using True by (simp add: Page5_effect_Inr Page5_register_all_eq)
    ultimately show ?thesis by simp
  qed
  with Page5_ref_eq Page5_callback_eq Page5_cleanup_eq show ?thesis by (intro conjI)
qed

text \<open>
  C10. What a run reveals is determined by the entries it delivers. Two runs that start
  from views with the same revealed elements and deliver the same entries in the same
  order end with the same revealed elements, whatever else differs between them: the
  registry, the observer and its threshold, the registrations and the calls of \<open>stop\<close>
  in between.
\<close>

theorem Page4_outcome_determined_by_events:
  assumes "\<forall>e. revealed v e = revealed w e"
    and "delivered ops1 = delivered ops2"
  shows "revealed (Page4_run ops1 v) e = revealed (Page4_run ops2 w) e"
  using assms by (simp add: revealed_Page4_run)

theorem Page4_outcome_determined_by_events_witness:
  "(\<forall>e. revealed \<lparr>refs = [Some 0, Some 1, Some 2, Some 3],
                   observer = Some \<lparr>threshold = 3 / 10, targets = [0, 1, 2, 3]\<rparr>,
                   classList = (\<lambda>_. [''point''])\<rparr> e
        = revealed \<lparr>refs = [Some 2], observer = None, classList = (\<lambda>_. [''flip-in''])\<rparr> e)
   \<and> delivered [Intersect [\<lparr>target = 2, isIntersecting = True, intersectionRatio = 1 / 2\<rparr>], Stop]
       = delivered [Stop, Register 0 None,
                    Intersect [\<lparr>target = 2, isIntersecting = True, intersectionRatio = 1 / 2\<rparr>]]
   \<and> revealed (Page4_run [Intersect [\<lparr>target = 2, isIntersecting = True, intersectionRatio = 1 / 2\<rparr>], Stop]
         \<lparr>refs = [Some 0, Some 1, Some 2, Some 3],
          observer = Some \<lparr>threshold = 3 / 10, targets = [0, 1, 2, 3]\<rparr>,
          classList = (\<lambda>_. [''point''])\<rparr>) 2
       = revealed (Page4_run [Stop, Register 0 None,
                    Intersect [\<lparr>target = 2, isIntersecting = True, intersectionRatio = 1 / 2\<rparr>]]
         \<lparr>refs = [Some 2], observer = None, classList = (\<lambda>_. [''flip-in''])\<rparr>) 2"
proof -
  have h1: "\<forall>e. revealed \<lparr>refs = [Some 0, Some 1, Some 2, Some 3],
                   observer = Some \<lparr>threshold = 3 / 10, targets = [0, 1, 2, 3]\<rparr>,
                   classList = (\<lambda>_. [''point''])\<rparr> e
        = revealed \<lparr>refs = [Some 2], observer = None, classList = (\<lambda>_. [''flip-in''])\<rparr> e"
    by (simp add: revealed_def)
  have h2: "delivered [Intersect [\<lparr>target = 2, isIntersecting = True, intersectionRatio = 1 / 2\<rparr>], Stop]
       = delivered [Stop, Register 0 None,
                    Intersect [\<lparr>target = 2, isIntersecting = True, intersectionRatio = 1 / 2\<rparr>]]"
    by simp
  from h1 h2 Page4_outcome_determined_by_events [OF h1 h2, of 2] show ?thesis by (intro conjI)
qed


end
